theory Spec2Isabelle
  imports Complex_Main "HOL-Library.Word"
begin

section \<open>The public types of \<^verbatim>\<open>include/text2image.h\<close>\<close>

text \<open>
  Pointers (task handles, shared pointers to tasks, callbacks, user data, caller
  buffers) are addresses, natural numbers with \<open>0\<close> for the null pointer. A
  \<^verbatim>\<open>const char*\<close> argument is a \<open>string option\<close>, \<open>None\<close> for the null pointer.
\<close>

type_synonym ptr = nat
type_synonym byte = "8 word"

definition nullptr :: ptr where
  "nullptr = 0"

datatype Text2Image_Resolution =
    TEXT2IMAGE_RESOLUTION_AUTO
  | TEXT2IMAGE_RESOLUTION_720P
  | TEXT2IMAGE_RESOLUTION_1080P
  | TEXT2IMAGE_RESOLUTION_2K
  | TEXT2IMAGE_RESOLUTION_4K
  | TEXT2IMAGE_RESOLUTION_8K

text \<open>\<^verbatim>\<open>JPEG\<close>, \<^verbatim>\<open>TIFF\<close> and \<^verbatim>\<open>HEIF\<close> are second names of the values \<^verbatim>\<open>JPG\<close>, \<^verbatim>\<open>TIF\<close>
  and \<^verbatim>\<open>HEIC\<close>.\<close>

datatype Text2Image_Format =
    TEXT2IMAGE_FORMAT_PNG
  | TEXT2IMAGE_FORMAT_JPG
  | TEXT2IMAGE_FORMAT_WEBP
  | TEXT2IMAGE_FORMAT_BMP
  | TEXT2IMAGE_FORMAT_TIF
  | TEXT2IMAGE_FORMAT_HEIC
  | TEXT2IMAGE_FORMAT_AVIF

datatype Text2Image_BackgroundType =
    TEXT2IMAGE_BACKGROUND_SOLID
  | TEXT2IMAGE_BACKGROUND_IMAGE

text \<open>The \<^verbatim>\<open>float\<close> field \<open>backgroundBlur\<close> is only ever assigned the literal
  \<^verbatim>\<open>0.0f\<close> and compared with \<open>0\<close>; it is kept as a real number.\<close>

record Text2Image_RenderOptions =
  resolution :: Text2Image_Resolution
  format :: Text2Image_Format
  quality :: int
  customWidth :: int
  customHeight :: int
  backgroundType :: Text2Image_BackgroundType
  backgroundColor :: "32 word"
  backgroundImage :: "string option"
  backgroundBlur :: real
  borderRadius :: int
  enableJavaScript :: bool
  timeout :: int

definition Text2Image_GetDefaultOptions :: Text2Image_RenderOptions where
  "Text2Image_GetDefaultOptions =
     \<lparr> resolution = TEXT2IMAGE_RESOLUTION_AUTO,
       format = TEXT2IMAGE_FORMAT_PNG,
       quality = 90,
       customWidth = 0,
       customHeight = 0,
       backgroundType = TEXT2IMAGE_BACKGROUND_SOLID,
       backgroundColor = 0xFFFFFFFF,
       backgroundImage = None,
       backgroundBlur = 0,
       borderRadius = 0,
       enableJavaScript = False,
       timeout = 30000 \<rparr>"


section \<open>Tasks (\<^verbatim>\<open>text2image_internal.h\<close>, \<^verbatim>\<open>task.cpp\<close>)\<close>

datatype TaskPriority = LOW | NORMAL | HIGH

datatype TaskStatus = PENDING | RUNNING | COMPLETED | FAILED | CANCELLED

record Task =
  m_handle :: ptr
  m_html :: string
  m_css :: string
  m_options :: Text2Image_RenderOptions
  m_status :: TaskStatus
  m_errorMessage :: string
  m_result :: "byte list"
  m_priority :: TaskPriority
  m_callback :: ptr
  m_userData :: ptr

text \<open>The constructor \<^verbatim>\<open>Task::Task\<close>, for an object placed at address \<open>this\<close>.
  The members \<open>m_errorMessage\<close> and \<open>m_result\<close> are not in the initialiser list and
  are default-constructed, that is empty.\<close>

definition Task_Task :: "ptr \<Rightarrow> string \<Rightarrow> string \<Rightarrow> Text2Image_RenderOptions \<Rightarrow> Task" where
  "Task_Task this html css options =
     \<lparr> m_handle = this,
       m_html = html,
       m_css = css,
       m_options = options,
       m_status = PENDING,
       m_errorMessage = [],
       m_result = [],
       m_priority = NORMAL,
       m_callback = nullptr,
       m_userData = nullptr \<rparr>"

definition getHandle :: "Task \<Rightarrow> ptr" where
  "getHandle t = m_handle t"

definition getOptions :: "Task \<Rightarrow> Text2Image_RenderOptions" where
  "getOptions t = m_options t"

definition getStatus :: "Task \<Rightarrow> TaskStatus" where
  "getStatus t = m_status t"

definition getErrorMessage :: "Task \<Rightarrow> string" where
  "getErrorMessage t = m_errorMessage t"

definition getResult :: "Task \<Rightarrow> byte list" where
  "getResult t = m_result t"


section \<open>The process state\<close>

text \<open>
  What other threads and the caller can observe is kept as a list of events, in the
  order in which they happen: every store to a task's atomic status, every call of a
  completion callback, every attempt to open or write an output file, and every
  notification of the pool's condition variable.
\<close>

datatype event =
    StatusStore ptr TaskStatus
  | CallbackCall ptr ptr bool ptr
  | FileOpen string
  | FileWrite string "byte list"
  | NotifyOne
  | NotifyAll

text \<open>The fields of \<^verbatim>\<open>ThreadPool\<close>. \<open>m_workers\<close> is the size of the vector of worker
  threads; \<open>m_tasks\<close> is the queue, its front at the head of the list. The counters are
  \<^verbatim>\<open>size_t\<close> values far below their bound (one increment for each running worker), so
  they are natural numbers.\<close>

record ThreadPool =
  m_workers :: nat
  m_tasks :: "ptr list"
  m_stop :: bool
  m_activeThreads :: nat
  m_maxThreads :: nat

text \<open>
  The fields of \<^verbatim>\<open>LibraryContext\<close> (its handle map \<^verbatim>\<open>m_tasks\<close> is \<open>m_taskMap\<close> here,
  the pool's queue has the name already), and the memory they point into:
  \<open>heap\<close> holds the \<^verbatim>\<open>Task\<close> objects, \<open>buffers\<close> the byte arrays handed to callers,
  \<open>brk\<close> is the last address the allocator gave out. Allocation returns the next
  address, which is not null; running out of memory is not part of this model.
\<close>

record state =
  m_initialized :: bool
  m_lastError :: string
  m_taskMap :: "ptr \<rightharpoonup> ptr"
  m_threadPool :: ThreadPool
  heap :: "ptr \<Rightarrow> Task"
  buffers :: "ptr \<rightharpoonup> byte list"
  brk :: nat
  events :: "event list"

text \<open>The constructor of the pool starts \<open>numThreads\<close> workers.\<close>

definition ThreadPool_ThreadPool :: "nat \<Rightarrow> ThreadPool" where
  "ThreadPool_ThreadPool numThreads =
     \<lparr> m_workers = numThreads, m_tasks = [], m_stop = False,
       m_activeThreads = 0, m_maxThreads = numThreads \<rparr>"

definition emit :: "event \<Rightarrow> state \<Rightarrow> state" where
  "emit e s = s\<lparr>events := events s @ [e]\<rparr>"

definition setLastError :: "string \<Rightarrow> state \<Rightarrow> state" where
  "setLastError error s = s\<lparr>m_lastError := error\<rparr>"

text \<open>\<^verbatim>\<open>getLastError\<close> returns the null pointer for the empty string.\<close>

definition getLastError :: "state \<Rightarrow> string option" where
  "getLastError s = (if m_lastError s = [] then None else Some (m_lastError s))"

subsection \<open>The setters of \<^verbatim>\<open>Task\<close>, through a pointer\<close>

definition setStatus :: "ptr \<Rightarrow> TaskStatus \<Rightarrow> state \<Rightarrow> state" where
  "setStatus task status s =
     emit (StatusStore task status)
       (s\<lparr>heap := (heap s)(task := (heap s task)\<lparr>m_status := status\<rparr>)\<rparr>)"

definition setErrorMessage :: "ptr \<Rightarrow> string \<Rightarrow> state \<Rightarrow> state" where
  "setErrorMessage task message s =
     s\<lparr>heap := (heap s)(task := (heap s task)\<lparr>m_errorMessage := message\<rparr>)\<rparr>"

definition setResult :: "ptr \<Rightarrow> byte list \<Rightarrow> state \<Rightarrow> state" where
  "setResult task result s =
     s\<lparr>heap := (heap s)(task := (heap s task)\<lparr>m_result := result\<rparr>)\<rparr>"

definition setCallback :: "ptr \<Rightarrow> ptr \<Rightarrow> ptr \<Rightarrow> state \<Rightarrow> state" where
  "setCallback task callback userData s =
     s\<lparr>heap := (heap s)(task := (heap s task)\<lparr>m_callback := callback, m_userData := userData\<rparr>)\<rparr>"


section \<open>What the program does not decide\<close>

datatype exn = StdException string | UnknownException

datatype SkEncodedImageFormat = kPNG | kJPEG | kWEBP | kBMP | kTIFF

text \<open>
  The outcome of everything outside the repository, for the length of one operation:
  the calls of \<^verbatim>\<open>SkiaRenderEngine::Impl::render\<close> into libxml2 and Skia (through the
  helpers \<^verbatim>\<open>parseHtml\<close>, \<^verbatim>\<open>drawBackground\<close>, \<^verbatim>\<open>renderHtmlToCanvas\<close> and
  \<^verbatim>\<open>encodeImage\<close>, which return \<^verbatim>\<open>false\<close> when the library fails; \<open>encodeImage\<close> gives
  the encoded bytes, or \<open>None\<close> for \<^verbatim>\<open>false\<close>), an exception raised by one of these
  calls inside the \<^verbatim>\<open>try\<close> block of \<^verbatim>\<open>render\<close>, whether \<^verbatim>\<open>std::ofstream\<close> can open and
  write a path, and whether a completion callback (code of the caller) raises.
  \<open>engine_initialize\<close> is the result of \<^verbatim>\<open>SkiaRenderEngine::initialize\<close>.
\<close>

record environment =
  engine_initialize :: bool
  parseHtml :: "string \<Rightarrow> string \<Rightarrow> bool"
  MakeRaster :: "int \<Rightarrow> int \<Rightarrow> bool"
  drawBackground :: "int \<Rightarrow> int \<Rightarrow> Text2Image_RenderOptions \<Rightarrow> bool"
  renderHtmlToCanvas :: "int \<Rightarrow> int \<Rightarrow> Text2Image_RenderOptions \<Rightarrow> bool"
  encodeImage :: "SkEncodedImageFormat \<Rightarrow> int \<Rightarrow> byte list option"
  render_raises :: "exn option"
  ofstream_open :: "string \<Rightarrow> bool"
  ofstream_write :: "string \<Rightarrow> byte list \<Rightarrow> bool"
  callback_raises :: "ptr \<Rightarrow> ptr \<Rightarrow> bool \<Rightarrow> ptr \<Rightarrow> exn option"


section \<open>\<^verbatim>\<open>Task::executeCallback\<close>\<close>

text \<open>The result is the exception the callback raised, if any. What the callback
  itself does to the process is not modelled; the call is recorded.\<close>

definition executeCallback :: "environment \<Rightarrow> ptr \<Rightarrow> bool \<Rightarrow> state \<Rightarrow> exn option \<times> state" where
  "executeCallback env task success s =
     (let t = heap s task in
      if m_callback t \<noteq> nullptr
      then (callback_raises env (m_callback t) (m_handle t) success (m_userData t),
            emit (CallbackCall (m_callback t) (m_handle t) success (m_userData t)) s)
      else (None, s))"


section \<open>\<^verbatim>\<open>SkiaRenderEngine::Impl::render\<close> (\<^verbatim>\<open>skia_render_engine.cpp\<close>)\<close>

definition canvas_size :: "Text2Image_RenderOptions \<Rightarrow> int \<times> int" where
  "canvas_size options =
     (if resolution options = TEXT2IMAGE_RESOLUTION_AUTO
      then (if customWidth options > 0 then customWidth options else 800,
            if customHeight options > 0 then customHeight options else 600)
      else (case resolution options of
              TEXT2IMAGE_RESOLUTION_720P \<Rightarrow> (1280, 720)
            | TEXT2IMAGE_RESOLUTION_1080P \<Rightarrow> (1920, 1080)
            | TEXT2IMAGE_RESOLUTION_2K \<Rightarrow> (2560, 1440)
            | TEXT2IMAGE_RESOLUTION_4K \<Rightarrow> (3840, 2160)
            | TEXT2IMAGE_RESOLUTION_8K \<Rightarrow> (7680, 4320)
            | TEXT2IMAGE_RESOLUTION_AUTO \<Rightarrow> (800, 600)))"

definition encoded_format :: "Text2Image_Format \<Rightarrow> SkEncodedImageFormat" where
  "encoded_format f =
     (case f of
        TEXT2IMAGE_FORMAT_PNG \<Rightarrow> kPNG
      | TEXT2IMAGE_FORMAT_JPG \<Rightarrow> kJPEG
      | TEXT2IMAGE_FORMAT_WEBP \<Rightarrow> kWEBP
      | TEXT2IMAGE_FORMAT_BMP \<Rightarrow> kBMP
      | TEXT2IMAGE_FORMAT_TIF \<Rightarrow> kTIFF
      | TEXT2IMAGE_FORMAT_HEIC \<Rightarrow> kPNG
      | TEXT2IMAGE_FORMAT_AVIF \<Rightarrow> kPNG)"

text \<open>
  The function catches every exception itself, so it always returns a boolean; the
  result type leaves room for an exception because the callers wrap the call in
  handlers of their own. The rounded-corner step between drawing and encoding only
  replaces the surface and touches nothing of the task.
\<close>

definition SkiaRenderEngine_render :: "environment \<Rightarrow> ptr \<Rightarrow> state \<Rightarrow> (exn + bool) \<times> state" where
  "SkiaRenderEngine_render env task s =
     (let t = heap s task; options = getOptions t in
      case render_raises env of
        Some (StdException what) \<Rightarrow>
          (Inr False, setErrorMessage task (''Exception during rendering: '' @ what) s)
      | Some UnknownException \<Rightarrow>
          (Inr False, setErrorMessage task ''Unknown exception during rendering'' s)
      | None \<Rightarrow>
          if \<not> parseHtml env (m_html t) (m_css t)
          then (Inr False, setErrorMessage task ''Failed to parse HTML/CSS'' s)
          else
            let (width, height) = canvas_size options in
            if \<not> MakeRaster env width height
            then (Inr False, setErrorMessage task ''Failed to create Skia surface'' s)
            else if \<not> drawBackground env width height options
            then (Inr False, setErrorMessage task ''Failed to draw background'' s)
            else if \<not> renderHtmlToCanvas env width height options
            then (Inr False, setErrorMessage task ''Failed to render HTML'' s)
            else
              (case encodeImage env (encoded_format (format options)) (quality options) of
                 None \<Rightarrow> (Inr False, setErrorMessage task ''Failed to encode image'' s)
               | Some output \<Rightarrow> (Inr True, setResult task output s)))"


section \<open>\<^verbatim>\<open>LibraryContext\<close> (\<^verbatim>\<open>library_context.cpp\<close>)\<close>

text \<open>
  The constructor, in a process with \<open>hardware_concurrency\<close> hardware threads. No
  task object exists yet; the memory holds tasks of no meaning at every address.
\<close>

definition LibraryContext_LibraryContext :: "nat \<Rightarrow> state" where
  "LibraryContext_LibraryContext hardware_concurrency =
     \<lparr> m_initialized = False,
       m_lastError = [],
       m_taskMap = Map.empty,
       m_threadPool = ThreadPool_ThreadPool hardware_concurrency,
       heap = (\<lambda>_. Task_Task nullptr [] [] Text2Image_GetDefaultOptions),
       buffers = Map.empty,
       brk = 0,
       events = [] \<rparr>"

definition initialize :: "environment \<Rightarrow> state \<Rightarrow> bool \<times> state" where
  "initialize env s =
     (if m_initialized s then (True, s)
      else if \<not> engine_initialize env
      then (False, setLastError ''Failed to initialize render engine: Skia'' s)
      else (True, s\<lparr>m_initialized := True\<rparr>))"

text \<open>\<^verbatim>\<open>createTask\<close> is only called by \<^verbatim>\<open>Text2Image_CreateTask\<close>, with \<open>html\<close> and
  \<open>options\<close> that are not null.\<close>

definition createTask ::
  "string \<Rightarrow> string option \<Rightarrow> Text2Image_RenderOptions \<Rightarrow> state \<Rightarrow> ptr \<times> state" where
  "createTask html css options s =
     (if \<not> m_initialized s then (nullptr, setLastError ''Library not initialized'' s)
      else
        let this = Suc (brk s);
            task = Task_Task this html (case css of Some c \<Rightarrow> c | None \<Rightarrow> []) options
        in (this, s\<lparr>brk := this,
                    heap := (heap s)(this := task),
                    m_taskMap := (m_taskMap s)(getHandle task \<mapsto> this)\<rparr>))"

definition freeTask :: "ptr \<Rightarrow> state \<Rightarrow> state" where
  "freeTask handle s =
     (if handle = nullptr then s
      else s\<lparr>m_taskMap := (m_taskMap s)(handle := None)\<rparr>)"

definition getTask :: "ptr \<Rightarrow> state \<Rightarrow> ptr" where
  "getTask handle s = (case m_taskMap s handle of Some p \<Rightarrow> p | None \<Rightarrow> nullptr)"

text \<open>The file is opened only when there is a path and the result is not empty. Each
  attempt is recorded before its outcome is tested.\<close>

definition renderSync :: "environment \<Rightarrow> ptr \<Rightarrow> string option \<Rightarrow> state \<Rightarrow> bool \<times> state" where
  "renderSync env task outputPath s =
     (if \<not> m_initialized s then (False, setLastError ''Library not initialized'' s)
      else if task = nullptr then (False, setLastError ''Invalid task'' s)
      else
        let s1 = setStatus task RUNNING s in
        case SkiaRenderEngine_render env task s1 of
          (Inr success, s2) \<Rightarrow>
            if success then
              let s3 = setStatus task COMPLETED s2 in
              (case outputPath of
                 None \<Rightarrow> (True, s3)
               | Some path \<Rightarrow>
                   let result = getResult (heap s3 task) in
                   if result \<noteq> [] then
                     let s4 = emit (FileOpen path) s3 in
                     if \<not> ofstream_open env path
                     then (False, setLastError (''Failed to open output file: '' @ path) s4)
                     else
                       let s5 = emit (FileWrite path result) s4 in
                       if \<not> ofstream_write env path result
                       then (False, setLastError (''Failed to write to output file: '' @ path) s5)
                       else (True, s5)
                   else (True, s3))
            else
              let s3 = setStatus task FAILED s2 in
              (False, setLastError (''Rendering failed: '' @ getErrorMessage (heap s3 task)) s3)
        | (Inl (StdException what), s2) \<Rightarrow>
            let s3 = setStatus task FAILED s2;
                errorMsg = ''Exception during rendering: '' @ what;
                s4 = setErrorMessage task errorMsg s3
            in (False, setLastError errorMsg s4)
        | (Inl UnknownException, s2) \<Rightarrow>
            let s3 = setStatus task FAILED s2;
                errorMsg = ''Unknown exception during rendering'';
                s4 = setErrorMessage task errorMsg s3
            in (False, setLastError errorMsg s4))"

text \<open>
  The closure \<^verbatim>\<open>renderTask\<close> that \<^verbatim>\<open>renderAsync\<close> builds. It has no handler: an
  exception of the engine leaves it (\<open>Some\<close> in the result), as does one of the
  callback.
\<close>

definition renderTask :: "environment \<Rightarrow> ptr \<Rightarrow> string option \<Rightarrow> state \<Rightarrow> exn option \<times> state" where
  "renderTask env task outputPath s =
     (case SkiaRenderEngine_render env task s of
        (Inl e, s1) \<Rightarrow> (Some e, s1)
      | (Inr success, s1) \<Rightarrow>
          let (success', s') =
            (if success then
               let s2 = setStatus task COMPLETED s1 in
               (case outputPath of
                  None \<Rightarrow> (True, s2)
                | Some path \<Rightarrow>
                    let result = getResult (heap s2 task) in
                    if result \<noteq> [] then
                      let s3 = emit (FileOpen path) s2 in
                      if \<not> ofstream_open env path
                      then (False,
                            setErrorMessage task (''Failed to open output file: '' @ path)
                              (setStatus task FAILED s3))
                      else
                        let s4 = emit (FileWrite path result) s3 in
                        if \<not> ofstream_write env path result
                        then (False,
                              setErrorMessage task (''Failed to write to output file: '' @ path)
                                (setStatus task FAILED s4))
                        else (True, s4)
                    else (True, s2))
             else (False, setStatus task FAILED s1))
          in executeCallback env task success' s')"


section \<open>\<^verbatim>\<open>ThreadPool\<close> (\<^verbatim>\<open>thread_pool.cpp\<close>)\<close>

text \<open>The exception \<^verbatim>\<open>std::runtime_error("enqueue on stopped ThreadPool")\<close>.\<close>

definition PoolStopped :: exn where
  "PoolStopped = StdException ''enqueue on stopped ThreadPool''"

definition enqueue :: "ptr \<Rightarrow> state \<Rightarrow> exn + state" where
  "enqueue task s =
     (let pool = m_threadPool s in
      if m_stop pool then Inl PoolStopped
      else Inr (emit NotifyOne (s\<lparr>m_threadPool := pool\<lparr>m_tasks := m_tasks pool @ [task]\<rparr>\<rparr>)))"

text \<open>
  \<^verbatim>\<open>ThreadPool::shutdown\<close> up to the point where it starts to join the workers: the
  stop flag is set under the lock and all workers are notified. The rest of the
  function waits for every worker thread to leave \<^verbatim>\<open>worker\<close> and then clears the
  vector (\<open>shutdown_joined\<close>).
\<close>

definition shutdown_begin :: "state \<Rightarrow> state" where
  "shutdown_begin s = emit NotifyAll (s\<lparr>m_threadPool := (m_threadPool s)\<lparr>m_stop := True\<rparr>\<rparr>)"

definition shutdown_joined :: "state \<Rightarrow> state" where
  "shutdown_joined s = s\<lparr>m_threadPool := (m_threadPool s)\<lparr>m_workers := 0\<rparr>\<rparr>"

definition setMaxThreads :: "nat \<Rightarrow> state \<Rightarrow> state" where
  "setMaxThreads numThreads s =
     (let pool = m_threadPool s in
      if numThreads = m_maxThreads pool then s
      else
        let currentSize = m_workers pool in
        if numThreads > currentSize
        then s\<lparr>m_threadPool := pool\<lparr>m_maxThreads := numThreads, m_workers := numThreads\<rparr>\<rparr>
        else if numThreads < currentSize
        then emit NotifyAll (s\<lparr>m_threadPool := pool\<lparr>m_maxThreads := numThreads\<rparr>\<rparr>)
        else s)"

subsection \<open>One pass of the worker loop\<close>

text \<open>
  The first half of the loop body runs with the mutex held, so it is one step on the
  pool: the worker stays blocked in \<^verbatim>\<open>wait\<close> (\<open>Blocked\<close>), returns from \<^verbatim>\<open>worker\<close>
  (\<open>Exited\<close>), goes back to the top of the loop (\<open>Again\<close>), or leaves the critical
  section with the task it took from the front of the queue (\<open>Took\<close>).
  \<open>FrontOfEmpty\<close> stands for \<^verbatim>\<open>front()\<close> on an empty queue.
\<close>

datatype wake = Blocked | Exited | Again | Took ptr | FrontOfEmpty

definition wait_predicate :: "ThreadPool \<Rightarrow> bool" where
  "wait_predicate pool \<longleftrightarrow>
     m_stop pool \<or> m_tasks pool \<noteq> [] \<or> m_activeThreads pool \<ge> m_maxThreads pool"

definition worker_dequeue :: "ThreadPool \<Rightarrow> wake \<times> ThreadPool" where
  "worker_dequeue pool =
     (if \<not> wait_predicate pool then (Blocked, pool)
      else if (m_stop pool \<or> (m_tasks pool = [] \<and> m_activeThreads pool \<ge> m_maxThreads pool))
              \<and> m_workers pool > m_maxThreads pool
      then (Exited, pool)
      else if (m_stop pool \<or> (m_tasks pool = [] \<and> m_activeThreads pool \<ge> m_maxThreads pool))
              \<and> m_tasks pool = []
      then (Again, pool)
      else
        (case m_tasks pool of
           [] \<Rightarrow> (FrontOfEmpty, pool)
         | task # rest \<Rightarrow>
             (Took task, pool\<lparr>m_tasks := rest, m_activeThreads := Suc (m_activeThreads pool)\<rparr>)))"

text \<open>
  The second half runs without the lock, on the task taken. The result is the
  exception that leaves \<^verbatim>\<open>worker\<close>, if any: one raised by the callback when a handler
  calls it again. \<^verbatim>\<open>sleep_for\<close> changes nothing.
\<close>

definition dec_activeThreads :: "state \<Rightarrow> state" where
  "dec_activeThreads s =
     s\<lparr>m_threadPool := (m_threadPool s)\<lparr>m_activeThreads := m_activeThreads (m_threadPool s) - 1\<rparr>\<rparr>"

definition worker_execute :: "environment \<Rightarrow> ptr \<Rightarrow> state \<Rightarrow> exn option \<times> state" where
  "worker_execute env task s =
     (let s1 = setStatus task RUNNING s;
          s2 = setStatus task COMPLETED s1
      in case executeCallback env task True s2 of
           (None, s3) \<Rightarrow> (None, dec_activeThreads s3)
         | (Some (StdException what), s3) \<Rightarrow>
             (let s4 = setStatus task FAILED s3;
                  s5 = setErrorMessage task (''Exception in worker thread: '' @ what) s4
              in case executeCallback env task False s5 of
                   (None, s6) \<Rightarrow> (None, dec_activeThreads s6)
                 | (Some e, s6) \<Rightarrow> (Some e, s6))
         | (Some UnknownException, s3) \<Rightarrow>
             (let s4 = setStatus task FAILED s3;
                  s5 = setErrorMessage task ''Unknown exception in worker thread'' s4
              in case executeCallback env task False s5 of
                   (None, s6) \<Rightarrow> (None, dec_activeThreads s6)
                 | (Some e, s6) \<Rightarrow> (Some e, s6)))"

text \<open>One pass of \<^verbatim>\<open>while (true)\<close>: what the worker decided under the lock, and the
  state after it has run the task it took, if it took one.\<close>

definition worker_iteration :: "environment \<Rightarrow> state \<Rightarrow> wake \<times> exn option \<times> state" where
  "worker_iteration env s =
     (case worker_dequeue (m_threadPool s) of
        (Took task, pool') \<Rightarrow>
          (let (e, s') = worker_execute env task (s\<lparr>m_threadPool := pool'\<rparr>)
           in (Took task, e, s'))
      | (w, pool') \<Rightarrow> (w, None, s\<lparr>m_threadPool := pool'\<rparr>))"


section \<open>\<^verbatim>\<open>LibraryContext::renderAsync\<close>\<close>

text \<open>The closure \<open>renderTask\<close> is built and dropped; the task alone goes to the pool.\<close>

definition renderAsync :: "ptr \<Rightarrow> string option \<Rightarrow> ptr \<Rightarrow> ptr \<Rightarrow> state \<Rightarrow> bool \<times> state" where
  "renderAsync task outputPath callback userData s =
     (if \<not> m_initialized s then (False, setLastError ''Library not initialized'' s)
      else if task = nullptr then (False, setLastError ''Invalid task'' s)
      else
        let s1 = setCallback task callback userData s in
        case enqueue task s1 of
          Inr s2 \<Rightarrow> (True, s2)
        | Inl (StdException what) \<Rightarrow>
            (False, setLastError (''Exception during async rendering setup: '' @ what) s1)
        | Inl UnknownException \<Rightarrow>
            (False, setLastError ''Unknown exception during async rendering setup'' s1))"


section \<open>The public functions (\<^verbatim>\<open>text2image.cpp\<close>)\<close>

definition Text2Image_CreateTask ::
  "string option \<Rightarrow> string option \<Rightarrow> Text2Image_RenderOptions option \<Rightarrow> state \<Rightarrow> ptr \<times> state" where
  "Text2Image_CreateTask html css options s =
     (case html of
        None \<Rightarrow> (nullptr, setLastError ''HTML content cannot be null'' s)
      | Some h \<Rightarrow>
          let defaultOptions = Text2Image_GetDefaultOptions;
              options' = (case options of None \<Rightarrow> defaultOptions | Some opt \<Rightarrow> opt);
              (task, s') = createTask h (Some (case css of Some c \<Rightarrow> c | None \<Rightarrow> [])) options' s
          in if task = nullptr then (nullptr, s')
             else (getHandle (heap s' task), s'))"

definition Text2Image_Render :: "environment \<Rightarrow> ptr \<Rightarrow> string option \<Rightarrow> state \<Rightarrow> bool \<times> state" where
  "Text2Image_Render env task outputPath s =
     (if task = nullptr then (False, setLastError ''Invalid task handle'' s)
      else
        let taskPtr = getTask task s in
        if taskPtr = nullptr then (False, setLastError ''Task not found'' s)
        else renderSync env taskPtr outputPath s)"

definition Text2Image_RenderAsync ::
  "ptr \<Rightarrow> string option \<Rightarrow> ptr \<Rightarrow> ptr \<Rightarrow> state \<Rightarrow> bool \<times> state" where
  "Text2Image_RenderAsync task outputPath callback userData s =
     (if task = nullptr then (False, setLastError ''Invalid task handle'' s)
      else
        let taskPtr = getTask task s in
        if taskPtr = nullptr then (False, setLastError ''Task not found'' s)
        else renderAsync taskPtr outputPath callback userData s)"

text \<open>
  \<open>buffer\<close> and \<open>size'\<close> are the addresses of the caller's two variables. The result
  carries what the function stored through each of them (\<open>None\<close> when it stored
  nothing): the address of the new array, and its length. \<^verbatim>\<open>new uint8_t[n]\<close>
  followed by \<^verbatim>\<open>memcpy\<close> puts a copy of the result at the next free address.
\<close>

definition Text2Image_GetResult ::
  "ptr \<Rightarrow> ptr \<Rightarrow> ptr \<Rightarrow> state \<Rightarrow> (bool \<times> ptr option \<times> nat option) \<times> state" where
  "Text2Image_GetResult task buffer size' s =
     (if task = nullptr \<or> buffer = nullptr \<or> size' = nullptr
      then ((False, None, None), setLastError ''Invalid parameters'' s)
      else
        let taskPtr = getTask task s in
        if taskPtr = nullptr then ((False, None, None), setLastError ''Task not found'' s)
        else if getStatus (heap s taskPtr) \<noteq> COMPLETED
        then ((False, None, None), setLastError ''Task not completed'' s)
        else
          let result = getResult (heap s taskPtr) in
          if result = [] then ((False, None, None), setLastError ''No result available'' s)
          else
            let p = Suc (brk s);
                s1 = s\<lparr>brk := p\<rparr>
            in if p = nullptr
               then ((False, Some p, None), setLastError ''Failed to allocate memory'' s1)
               else ((True, Some p, Some (length result)),
                     s1\<lparr>buffers := (buffers s1)(p \<mapsto> result)\<rparr>))"

definition Text2Image_FreeBuffer :: "ptr \<Rightarrow> state \<Rightarrow> state" where
  "Text2Image_FreeBuffer buffer s =
     (if buffer \<noteq> nullptr then s\<lparr>buffers := (buffers s)(buffer := None)\<rparr> else s)"

definition Text2Image_FreeTask :: "ptr \<Rightarrow> state \<Rightarrow> state" where
  "Text2Image_FreeTask task s = (if task \<noteq> nullptr then freeTask task s else s)"


text \<open>\<^verbatim>\<open>Text2Image_Init\<close>.\<close>

definition Text2Image_Init :: "environment \<Rightarrow> state \<Rightarrow> bool \<times> state" where
  "Text2Image_Init env s = initialize env s"

text \<open>
  \<^verbatim>\<open>Text2Image_Shutdown\<close>, that is \<^verbatim>\<open>LibraryContext::shutdown\<close>, in the two parts that
  the join inside \<^verbatim>\<open>ThreadPool::shutdown\<close> separates: up to the join, and from the
  return of the join (the vector of workers is cleared, the engine released, the
  handle map cleared and the flag reset).
\<close>

definition Text2Image_Shutdown_begin :: "state \<Rightarrow> state" where
  "Text2Image_Shutdown_begin s = (if \<not> m_initialized s then s else shutdown_begin s)"

definition Text2Image_Shutdown_joined :: "state \<Rightarrow> state" where
  "Text2Image_Shutdown_joined s =
     (if \<not> m_initialized s then s
      else (shutdown_joined s)\<lparr>m_taskMap := Map.empty, m_initialized := False\<rparr>)"

text \<open>\<^verbatim>\<open>Text2Image_SetMaxThreads\<close>, in a process with \<open>hardware_concurrency\<close> hardware
  threads (a number that fits an \<^verbatim>\<open>int\<close>).\<close>

definition Text2Image_SetMaxThreads :: "nat \<Rightarrow> int \<Rightarrow> state \<Rightarrow> state" where
  "Text2Image_SetMaxThreads hardware_concurrency numThreads s =
     setMaxThreads (if numThreads \<le> 0 then hardware_concurrency else nat numThreads) s"


section \<open>Sequences of operations\<close>

text \<open>
  What can happen to the process, one step at a time: a call of one of the public
  functions (\<^verbatim>\<open>Text2Image_Shutdown\<close> in its two parts), or one pass of a worker
  thread through its loop. \<open>perform\<close> is the state after the step, in the environment
  of that step; \<open>run\<close> performs a list of steps in order.
\<close>

datatype operation =
    Op_Init
  | Op_Shutdown_begin
  | Op_Shutdown_joined
  | Op_CreateTask "string option" "string option" "Text2Image_RenderOptions option"
  | Op_Render ptr "string option"
  | Op_RenderAsync ptr "string option" ptr ptr
  | Op_GetResult ptr ptr ptr
  | Op_FreeBuffer ptr
  | Op_FreeTask ptr
  | Op_SetMaxThreads nat int
  | Op_WorkerPass

fun perform :: "environment \<Rightarrow> operation \<Rightarrow> state \<Rightarrow> state" where
  "perform env Op_Init s = snd (Text2Image_Init env s)"
| "perform env Op_Shutdown_begin s = Text2Image_Shutdown_begin s"
| "perform env Op_Shutdown_joined s = Text2Image_Shutdown_joined s"
| "perform env (Op_CreateTask html css options) s = snd (Text2Image_CreateTask html css options s)"
| "perform env (Op_Render task outputPath) s = snd (Text2Image_Render env task outputPath s)"
| "perform env (Op_RenderAsync task outputPath callback userData) s
     = snd (Text2Image_RenderAsync task outputPath callback userData s)"
| "perform env (Op_GetResult task buffer size') s = snd (Text2Image_GetResult task buffer size' s)"
| "perform env (Op_FreeBuffer buffer) s = Text2Image_FreeBuffer buffer s"
| "perform env (Op_FreeTask task) s = Text2Image_FreeTask task s"
| "perform env (Op_SetMaxThreads hardware_concurrency numThreads) s
     = Text2Image_SetMaxThreads hardware_concurrency numThreads s"
| "perform env Op_WorkerPass s = snd (snd (worker_iteration env s))"

fun run :: "(environment \<times> operation) list \<Rightarrow> state \<Rightarrow> state" where
  "run [] s = s"
| "run ((env, op) # ops) s = run ops (perform env op s)"


section \<open>Reading the event list; concrete environments\<close>

text \<open>The stores to the status of tasks, in order.\<close>

fun status_stores :: "event list \<Rightarrow> (ptr \<times> TaskStatus) list" where
  "status_stores [] = []"
| "status_stores (StatusStore task status # es) = (task, status) # status_stores es"
| "status_stores (e # es) = status_stores es"

text \<open>The calls of callbacks, in order: callback, handle, success flag, user data.\<close>

fun callback_calls :: "event list \<Rightarrow> (ptr \<times> ptr \<times> bool \<times> ptr) list" where
  "callback_calls [] = []"
| "callback_calls (CallbackCall cb h success ud # es) = (cb, h, success, ud) # callback_calls es"
| "callback_calls (e # es) = callback_calls es"

text \<open>An environment in which every library call and every file operation succeeds,
  the encoder yields \<open>bytes\<close>, and no callback raises.\<close>

definition env_ok :: "byte list \<Rightarrow> environment" where
  "env_ok bytes =
     \<lparr> engine_initialize = True,
       parseHtml = (\<lambda>html css. True),
       MakeRaster = (\<lambda>width height. True),
       drawBackground = (\<lambda>width height options. True),
       renderHtmlToCanvas = (\<lambda>width height options. True),
       encodeImage = (\<lambda>fmt q. Some bytes),
       render_raises = None,
       ofstream_open = (\<lambda>path. True),
       ofstream_write = (\<lambda>path data. True),
       callback_raises = (\<lambda>cb h success ud. None) \<rparr>"

text \<open>The state after a successful \<^verbatim>\<open>Text2Image_Init\<close> in a process with two hardware
  threads.\<close>

definition running_state :: state where
  "running_state = snd (initialize (env_ok []) (LibraryContext_LibraryContext 2))"

text \<open>
  Three states of one run, used where a theorem is evaluated at a concrete input: a
  task created from \<^verbatim>\<open><p>hi</p>\<close> with no stylesheet and the default options (its
  object is at address \<open>1\<close>, which is also its handle); the same task submitted with
  \<^verbatim>\<open>Text2Image_RenderAsync\<close>, output path \<^verbatim>\<open>out.png\<close>, callback \<open>7\<close> and user data \<open>8\<close>;
  and the created task rendered with \<^verbatim>\<open>Text2Image_Render\<close>, the encoder yielding the
  bytes \<open>1, 2, 3\<close>.
\<close>

definition task_created :: state where
  "task_created = snd (Text2Image_CreateTask (Some ''<p>hi</p>'') None None running_state)"

definition task_submitted :: state where
  "task_submitted = snd (Text2Image_RenderAsync 1 (Some ''out.png'') 7 8 task_created)"

definition task_rendered :: state where
  "task_rendered = snd (Text2Image_Render (env_ok [1, 2, 3]) 1 None task_created)"

text \<open>The relation between a task's result, error message and status that the
  specification asks for.\<close>

definition result_error_invariant :: "Task \<Rightarrow> bool" where
  "result_error_invariant t \<longleftrightarrow>
     (getResult t \<noteq> [] \<longrightarrow> getStatus t = COMPLETED) \<and>
     (getErrorMessage t \<noteq> [] \<longrightarrow> getStatus t = FAILED) \<and>
     \<not> (getResult t \<noteq> [] \<and> getErrorMessage t \<noteq> [])"



text \<open>
  The allocator's bookkeeping: every address in use, of a caller's buffer or of a
  registered task, was given out by the allocator, so it is at most \<open>brk\<close>.
\<close>

definition alloc_inv :: "state \<Rightarrow> bool" where
  "alloc_inv s \<longleftrightarrow>
     (\<forall>p bytes. buffers s p = Some bytes \<longrightarrow> p \<le> brk s) \<and>
     (\<forall>h p. m_taskMap s h = Some p \<longrightarrow> h \<le> brk s \<and> p \<le> brk s)"


section \<open>Auxiliary facts\<close>

lemmas task_access = getHandle_def getOptions_def getStatus_def getErrorMessage_def getResult_def

lemmas task_update =
  setStatus_def setErrorMessage_def setResult_def setCallback_def emit_def setLastError_def

lemmas run_defs =
  worker_iteration_def worker_dequeue_def wait_predicate_def worker_execute_def
  executeCallback_def dec_activeThreads_def renderTask_def renderSync_def
  SkiaRenderEngine_render_def canvas_size_def encoded_format_def env_ok_def
  Text2Image_GetDefaultOptions_def Task_Task_def Let_def nullptr_def task_update task_access

lemma status_stores_append [simp]:
  "status_stores (xs @ ys) = status_stores xs @ status_stores ys"
  by (induction xs rule: status_stores.induct) simp_all

lemma callback_calls_append [simp]:
  "callback_calls (xs @ ys) = callback_calls xs @ callback_calls ys"
  by (induction xs rule: callback_calls.induct) simp_all

lemma running_state_simp:
  "running_state =
     \<lparr> m_initialized = True, m_lastError = [], m_taskMap = Map.empty,
       m_threadPool = \<lparr> m_workers = 2, m_tasks = [], m_stop = False,
                        m_activeThreads = 0, m_maxThreads = 2 \<rparr>,
       heap = (\<lambda>_. Task_Task nullptr [] [] Text2Image_GetDefaultOptions),
       buffers = Map.empty, brk = 0, events = [] \<rparr>"
  by (simp add: running_state_def initialize_def LibraryContext_LibraryContext_def env_ok_def
      ThreadPool_ThreadPool_def)

lemma task_created_simp:
  "task_created =
     \<lparr> m_initialized = True, m_lastError = [], m_taskMap = [Suc 0 \<mapsto> Suc 0],
       m_threadPool = \<lparr> m_workers = 2, m_tasks = [], m_stop = False,
                        m_activeThreads = 0, m_maxThreads = 2 \<rparr>,
       heap = (\<lambda>_. Task_Task nullptr [] [] Text2Image_GetDefaultOptions)
                (Suc 0 := Task_Task (Suc 0) ''<p>hi</p>'' [] Text2Image_GetDefaultOptions),
       buffers = Map.empty, brk = Suc 0, events = [] \<rparr>"
  by (simp add: task_created_def running_state_simp Text2Image_CreateTask_def createTask_def
      Let_def nullptr_def task_access Task_Task_def)

lemma task_submitted_simp:
  "task_submitted =
     \<lparr> m_initialized = True, m_lastError = [], m_taskMap = [Suc 0 \<mapsto> Suc 0],
       m_threadPool = \<lparr> m_workers = 2, m_tasks = [Suc 0], m_stop = False,
                        m_activeThreads = 0, m_maxThreads = 2 \<rparr>,
       heap = (\<lambda>_. Task_Task nullptr [] [] Text2Image_GetDefaultOptions)
                (Suc 0 := (Task_Task (Suc 0) ''<p>hi</p>'' [] Text2Image_GetDefaultOptions)
                            \<lparr>m_callback := 7, m_userData := 8\<rparr>),
       buffers = Map.empty, brk = Suc 0, events = [NotifyOne] \<rparr>"
  by (simp add: task_submitted_def task_created_simp Text2Image_RenderAsync_def renderAsync_def
      getTask_def enqueue_def Let_def nullptr_def task_update)

lemma task_rendered_simp:
  "task_rendered =
     \<lparr> m_initialized = True, m_lastError = [], m_taskMap = [Suc 0 \<mapsto> Suc 0],
       m_threadPool = \<lparr> m_workers = 2, m_tasks = [], m_stop = False,
                        m_activeThreads = 0, m_maxThreads = 2 \<rparr>,
       heap = (\<lambda>_. Task_Task nullptr [] [] Text2Image_GetDefaultOptions)
                (Suc 0 := (Task_Task (Suc 0) ''<p>hi</p>'' [] Text2Image_GetDefaultOptions)
                            \<lparr>m_status := COMPLETED, m_result := [1, 2, 3]\<rparr>),
       buffers = Map.empty, brk = Suc 0,
       events = [StatusStore (Suc 0) RUNNING, StatusStore (Suc 0) COMPLETED] \<rparr>"
  by (simp add: task_rendered_def task_created_simp Text2Image_Render_def getTask_def run_defs)

text \<open>The engine either stores a result and returns \<^verbatim>\<open>true\<close>, or stores an error
  message that is not empty and returns \<^verbatim>\<open>false\<close>; it never raises.\<close>

lemma SkiaRenderEngine_render_cases:
  "(\<exists>output. SkiaRenderEngine_render env task s = (Inr True, setResult task output s)) \<or>
   (\<exists>msg. msg \<noteq> [] \<and> SkiaRenderEngine_render env task s = (Inr False, setErrorMessage task msg s))"
proof (cases "\<exists>output. SkiaRenderEngine_render env task s = (Inr True, setResult task output s)")
  case True
  then show ?thesis by simp
next
  case False
  have "\<exists>msg. msg \<noteq> [] \<and> SkiaRenderEngine_render env task s = (Inr False, setErrorMessage task msg s)"
    using False
    by (fastforce simp: SkiaRenderEngine_render_def Let_def
          split: option.splits exn.splits prod.splits if_splits)
  then show ?thesis by simp
qed

lemma renderSync_rejected:
  "\<not> (m_initialized s \<and> task \<noteq> nullptr) \<Longrightarrow>
     heap (snd (renderSync env task outputPath s)) = heap s \<and>
     events (snd (renderSync env task outputPath s)) = events s \<and>
     \<not> fst (renderSync env task outputPath s)"
  by (auto simp: renderSync_def setLastError_def)

text \<open>\<^verbatim>\<open>front()\<close> is never called on an empty queue.\<close>

lemma worker_dequeue_front: "fst (worker_dequeue pool) \<noteq> FrontOfEmpty"
  by (auto simp: worker_dequeue_def wait_predicate_def split: list.splits)

text \<open>
  A stopped pool with no surplus of workers and an empty queue sends the worker back
  to the top of its loop with nothing changed, pass after pass: the worker does not
  leave \<^verbatim>\<open>worker\<close>, so the join in \<^verbatim>\<open>shutdown\<close> does not return. This is why \<open>shutdown\<close>
  is given in two parts above.
\<close>

lemma worker_spins_after_stop:
  assumes "m_stop (m_threadPool s)"
    and "\<not> m_workers (m_threadPool s) > m_maxThreads (m_threadPool s)"
    and "m_tasks (m_threadPool s) = []"
  shows "worker_iteration env s = (Again, None, s)"
  using assms
  by (simp add: worker_iteration_def worker_dequeue_def wait_predicate_def)

text \<open>Nothing clears the stop flag: not a pass of a worker, not a submission, not a
  change of the number of threads.\<close>

lemma stop_flag_stays:
  assumes "m_stop (m_threadPool s)"
  shows "m_stop (m_threadPool (snd (snd (worker_iteration env s))))"
    and "m_stop (m_threadPool (snd (renderAsync task outputPath callback userData s)))"
    and "m_stop (m_threadPool (setMaxThreads n s))"
    and "m_stop (m_threadPool (snd (renderSync env task outputPath s)))"
proof -
  show "m_stop (m_threadPool (snd (snd (worker_iteration env s))))"
    using assms
    by (simp add: worker_iteration_def worker_dequeue_def wait_predicate_def worker_execute_def
          executeCallback_def dec_activeThreads_def Let_def task_update
          split: list.splits option.splits exn.splits)
  show "m_stop (m_threadPool (snd (renderAsync task outputPath callback userData s)))"
    using assms
    by (simp add: renderAsync_def enqueue_def PoolStopped_def Let_def task_update)
  show "m_stop (m_threadPool (setMaxThreads n s))"
    using assms by (simp add: setMaxThreads_def Let_def emit_def)
  show "m_stop (m_threadPool (snd (renderSync env task outputPath s)))"
  proof (cases "m_initialized s \<and> task \<noteq> nullptr")
    case False
    with assms show ?thesis by (auto simp: renderSync_def setLastError_def)
  next
    case True
    with assms SkiaRenderEngine_render_cases [of env task "setStatus task RUNNING s"]
    show ?thesis
      by (elim disjE exE conjE)
         (simp_all add: renderSync_def Let_def task_update split: option.splits)
  qed
qed

text \<open>What a stopped pool makes of a worker's pass.\<close>

lemma worker_dequeue_on_stop:
  assumes "m_stop pool"
  shows "worker_dequeue pool =
           (if m_workers pool > m_maxThreads pool then (Exited, pool)
            else case m_tasks pool of
                   [] \<Rightarrow> (Again, pool)
                 | task # rest \<Rightarrow>
                     (Took task, pool\<lparr>m_tasks := rest,
                        m_activeThreads := Suc (m_activeThreads pool)\<rparr>))"
  using assms
  by (auto simp: worker_dequeue_def wait_predicate_def split: list.splits)



text \<open>The stores of the worker as it is written: \<open>FAILED\<close> follows \<open>COMPLETED\<close> exactly
  when the task has a callback and its first call raised.\<close>

lemma stores_worker_execute_exact:
  "status_stores (events (snd (worker_execute env task s)))
     = status_stores (events s) @ [(task, RUNNING), (task, COMPLETED)]
       @ (if m_callback (heap s task) \<noteq> nullptr \<and>
             callback_raises env (m_callback (heap s task)) (m_handle (heap s task)) True
               (m_userData (heap s task)) \<noteq> None
          then [(task, FAILED)] else [])"
  by (simp add: worker_execute_def executeCallback_def dec_activeThreads_def Let_def task_update
        split: option.splits exn.splits)





text \<open>
  The allocator's bookkeeping holds when the library object is constructed and every
  operation keeps it; rendering and the workers leave the buffers, the handle map
  and \<open>brk\<close> alone.
\<close>

lemma frame_renderSync:
  "buffers (snd (renderSync env task outputPath s)) = buffers s \<and>
   brk (snd (renderSync env task outputPath s)) = brk s \<and>
   m_taskMap (snd (renderSync env task outputPath s)) = m_taskMap s"
proof (cases "m_initialized s \<and> task \<noteq> nullptr")
  case False
  then show ?thesis by (auto simp: renderSync_def setLastError_def)
next
  case True
  with SkiaRenderEngine_render_cases [of env task "setStatus task RUNNING s"]
  show ?thesis
    by (elim disjE exE conjE)
       (simp_all add: renderSync_def Let_def task_update split: option.splits)
qed

lemma frame_worker_iteration:
  "buffers (snd (snd (worker_iteration env s))) = buffers s \<and>
   brk (snd (snd (worker_iteration env s))) = brk s \<and>
   m_taskMap (snd (snd (worker_iteration env s))) = m_taskMap s"
  by (simp add: worker_iteration_def worker_dequeue_def wait_predicate_def worker_execute_def
        executeCallback_def dec_activeThreads_def Let_def task_update
        split: list.splits option.splits exn.splits)

lemma alloc_inv_perform: "alloc_inv s \<Longrightarrow> alloc_inv (perform env op s)"
proof (cases op)
  case (Op_Render task outputPath)
  assume "alloc_inv s"
  with Op_Render show ?thesis
    by (simp add: alloc_inv_def Text2Image_Render_def Let_def setLastError_def frame_renderSync)
next
  case Op_WorkerPass
  assume "alloc_inv s"
  with Op_WorkerPass show ?thesis
    by (simp add: alloc_inv_def frame_worker_iteration)
next
  case (Op_RenderAsync task outputPath callback userData)
  assume "alloc_inv s"
  with Op_RenderAsync show ?thesis
    by (simp add: alloc_inv_def Text2Image_RenderAsync_def renderAsync_def enqueue_def
          PoolStopped_def Let_def task_update split: sum.splits exn.splits)
next
  case (Op_CreateTask html css options)
  assume "alloc_inv s"
  with Op_CreateTask show ?thesis
    by (auto simp: alloc_inv_def Text2Image_CreateTask_def createTask_def Let_def setLastError_def
          task_access Task_Task_def nullptr_def le_Suc_eq split: option.splits if_splits)
next
  case (Op_GetResult task buffer size')
  assume "alloc_inv s"
  with Op_GetResult show ?thesis
    by (auto simp: alloc_inv_def Text2Image_GetResult_def Let_def setLastError_def nullptr_def
          le_Suc_eq split: if_splits)
next
  case Op_Init
  assume "alloc_inv s"
  with Op_Init show ?thesis
    by (simp add: alloc_inv_def Text2Image_Init_def initialize_def setLastError_def)
next
  case Op_Shutdown_begin
  assume "alloc_inv s"
  with Op_Shutdown_begin show ?thesis
    by (simp add: alloc_inv_def Text2Image_Shutdown_begin_def shutdown_begin_def emit_def)
next
  case Op_Shutdown_joined
  assume "alloc_inv s"
  with Op_Shutdown_joined show ?thesis
    by (simp add: alloc_inv_def Text2Image_Shutdown_joined_def shutdown_joined_def)
next
  case (Op_FreeBuffer buffer)
  assume "alloc_inv s"
  with Op_FreeBuffer show ?thesis
    by (simp add: alloc_inv_def Text2Image_FreeBuffer_def)
next
  case (Op_FreeTask task)
  assume "alloc_inv s"
  with Op_FreeTask show ?thesis
    by (simp add: alloc_inv_def Text2Image_FreeTask_def freeTask_def)
next
  case (Op_SetMaxThreads hw n)
  assume "alloc_inv s"
  with Op_SetMaxThreads show ?thesis
    by (simp add: alloc_inv_def Text2Image_SetMaxThreads_def setMaxThreads_def Let_def emit_def)
qed

lemma alloc_inv_run: "alloc_inv s \<Longrightarrow> alloc_inv (run ops s)"
proof (induction ops arbitrary: s)
  case Nil
  then show ?case by simp
next
  case (Cons a ops)
  obtain env op where "a = (env, op)" by (cases a)
  with Cons show ?case by (simp add: alloc_inv_perform)
qed

lemma alloc_inv_initial: "alloc_inv (LibraryContext_LibraryContext hardware_concurrency)"
  by (simp add: alloc_inv_def LibraryContext_LibraryContext_def)


section \<open>The asynchronous path\<close>

text \<open>
  Claim C1: the worker that takes a task submitted with \<open>renderAsync\<close> performs the steps
  of \<open>renderSync\<close> (engine, status from the engine's result, output file) and then calls
  the callback. The code does not: the worker never calls the engine. For the task
  submitted with output path \<^verbatim>\<open>out.png\<close>, in an environment where the engine would
  produce the bytes \<open>1, 2, 3\<close>, the worker stores \<open>RUNNING\<close> and \<open>COMPLETED\<close>, leaves the
  result empty, opens no file and calls the callback with \<^verbatim>\<open>true\<close>; the closure
  \<open>renderTask\<close> that \<open>renderAsync\<close> builds for this purpose, and that nothing calls,
  would store the bytes and write the file. Where the engine fails, the worker still
  reports \<open>COMPLETED\<close> and \<^verbatim>\<open>true\<close>, and \<open>renderSync\<close> reports \<open>FAILED\<close> and \<^verbatim>\<open>false\<close>.
\<close>

theorem worker_skips_render:
  "fst (worker_iteration (env_ok [1, 2, 3]) task_submitted) = Took 1 \<and>
   getStatus (heap (snd (snd (worker_iteration (env_ok [1, 2, 3]) task_submitted))) 1) = COMPLETED \<and>
   getResult (heap (snd (snd (worker_iteration (env_ok [1, 2, 3]) task_submitted))) 1) = [] \<and>
   events (snd (snd (worker_iteration (env_ok [1, 2, 3]) task_submitted)))
     = [NotifyOne, StatusStore 1 RUNNING, StatusStore 1 COMPLETED, CallbackCall 7 1 True 8] \<and>
   getResult (heap (snd (renderTask (env_ok [1, 2, 3]) 1 (Some ''out.png'') task_submitted)) 1)
     = [1, 2, 3] \<and>
   events (snd (renderTask (env_ok [1, 2, 3]) 1 (Some ''out.png'') task_submitted))
     = [NotifyOne, StatusStore 1 COMPLETED, FileOpen ''out.png'',
        FileWrite ''out.png'' [1, 2, 3], CallbackCall 7 1 True 8] \<and>
   events (snd (snd (worker_iteration ((env_ok [])\<lparr>parseHtml := (\<lambda>html css. False)\<rparr>) task_submitted)))
     = [NotifyOne, StatusStore 1 RUNNING, StatusStore 1 COMPLETED, CallbackCall 7 1 True 8] \<and>
   \<not> fst (renderSync ((env_ok [])\<lparr>parseHtml := (\<lambda>html css. False)\<rparr>) 1 (Some ''out.png'') task_submitted) \<and>
   getStatus (heap (snd (renderSync ((env_ok [])\<lparr>parseHtml := (\<lambda>html css. False)\<rparr>) 1
                           (Some ''out.png'') task_submitted)) 1) = FAILED"
  by (simp add: task_submitted_simp run_defs)


section \<open>The pool after \<^verbatim>\<open>shutdown\<close>\<close>

text \<open>
  Claim C2: a task that is in the queue when \<open>shutdown\<close> sets the stop flag is not run
  afterwards and its callback is not called. The code does not keep to this. No path
  of \<^verbatim>\<open>worker\<close> returns on the stop flag alone: in the pool as the library builds it
  (two workers, target two) the next pass of a worker takes the queued task, runs it
  and calls its callback, and the pass after that finds the queue empty and goes
  back to the top of the loop with nothing changed, so the worker never leaves and
  the join in \<open>shutdown\<close> does not return. Only the path for a pool with more workers
  than its target does what the claim says: there the worker returns and the task
  stays in the queue.
\<close>

theorem queued_task_runs_after_stop:
  "m_stop (m_threadPool (shutdown_begin task_submitted)) \<and>
   m_tasks (m_threadPool (shutdown_begin task_submitted)) = [1] \<and>
   m_workers (m_threadPool (shutdown_begin task_submitted)) = 2 \<and>
   m_maxThreads (m_threadPool (shutdown_begin task_submitted)) = 2 \<and>
   fst (worker_iteration (env_ok []) (shutdown_begin task_submitted)) = Took 1 \<and>
   events (snd (snd (worker_iteration (env_ok []) (shutdown_begin task_submitted))))
     = events (shutdown_begin task_submitted)
       @ [StatusStore 1 RUNNING, StatusStore 1 COMPLETED, CallbackCall 7 1 True 8] \<and>
   worker_iteration (env_ok [])
       (snd (snd (worker_iteration (env_ok []) (shutdown_begin task_submitted))))
     = (Again, None, snd (snd (worker_iteration (env_ok []) (shutdown_begin task_submitted)))) \<and>
   m_tasks (m_threadPool (shutdown_begin (setMaxThreads 1 task_submitted))) = [1] \<and>
   worker_iteration (env_ok []) (shutdown_begin (setMaxThreads 1 task_submitted))
     = (Exited, None, shutdown_begin (setMaxThreads 1 task_submitted))"
  by (simp add: shutdown_begin_def setMaxThreads_def task_submitted_simp run_defs)

text \<open>
  Claim C3: once \<open>shutdown\<close> has set the stop flag, \<open>enqueue\<close> raises \<open>PoolStopped\<close>, and
  \<open>renderAsync\<close> returns \<^verbatim>\<open>false\<close>, leaves the queue as it is and sets the last error;
  while the pool is not stopped \<open>enqueue\<close> appends the task at the back of the queue and
  notifies one worker. \<open>renderAsync\<close> returns \<^verbatim>\<open>true\<close> only when the task was appended.
\<close>

theorem enqueue_after_shutdown:
  "m_stop (m_threadPool (shutdown_begin s)) \<and>
   (m_stop (m_threadPool s) \<longrightarrow>
      enqueue task s = Inl PoolStopped \<and>
      \<not> fst (renderAsync task outputPath callback userData s) \<and>
      m_tasks (m_threadPool (snd (renderAsync task outputPath callback userData s)))
        = m_tasks (m_threadPool s) \<and>
      getLastError (snd (renderAsync task outputPath callback userData s)) \<noteq> None \<and>
      (m_initialized s \<and> task \<noteq> nullptr \<longrightarrow>
         getLastError (snd (renderAsync task outputPath callback userData s))
           = Some ''Exception during async rendering setup: enqueue on stopped ThreadPool'')) \<and>
   (\<not> m_stop (m_threadPool s) \<longrightarrow>
      (case enqueue task s of
         Inl e \<Rightarrow> False
       | Inr s' \<Rightarrow>
           m_tasks (m_threadPool s') = m_tasks (m_threadPool s) @ [task] \<and>
           events s' = events s @ [NotifyOne] \<and>
           heap s' = heap s)) \<and>
   (fst (renderAsync task outputPath callback userData s) \<longrightarrow>
      m_tasks (m_threadPool (snd (renderAsync task outputPath callback userData s)))
        = m_tasks (m_threadPool s) @ [task])"
  by (simp add: shutdown_begin_def renderAsync_def enqueue_def PoolStopped_def getLastError_def
        Let_def task_update)

theorem enqueue_after_shutdown_witness:
  "m_stop (m_threadPool (shutdown_begin task_created)) \<and>
   enqueue 1 (shutdown_begin task_created) = Inl PoolStopped \<and>
   \<not> fst (renderAsync 1 None 7 8 (shutdown_begin task_created)) \<and>
   getLastError (snd (renderAsync 1 None 7 8 (shutdown_begin task_created)))
     = Some ''Exception during async rendering setup: enqueue on stopped ThreadPool'' \<and>
   \<not> m_stop (m_threadPool task_created) \<and>
   fst (renderAsync 1 None 7 8 task_created) \<and>
   m_tasks (m_threadPool (snd (renderAsync 1 None 7 8 task_created))) = [1]"
proof -
  have stopped: "m_stop (m_threadPool (shutdown_begin task_created))"
    by (simp add: shutdown_begin_def emit_def)
  have live: "m_initialized (shutdown_begin task_created) \<and> (1::nat) \<noteq> nullptr"
    by (simp add: shutdown_begin_def emit_def task_created_simp nullptr_def)
  have running: "\<not> m_stop (m_threadPool task_created)"
    by (simp add: task_created_simp)
  have accepted: "fst (renderAsync 1 None 7 8 task_created)"
    by (simp add: task_created_simp renderAsync_def enqueue_def Let_def nullptr_def task_update)
  have queue: "m_tasks (m_threadPool task_created) = []"
    by (simp add: task_created_simp)
  show ?thesis
    using stopped live running accepted queue
      enqueue_after_shutdown [of "shutdown_begin task_created" 1 None 7 8]
      enqueue_after_shutdown [of task_created 1 None 7 8]
    by simp
qed

section \<open>The synchronous path\<close>

text \<open>
  Claim C4: when the engine succeeds and the output file cannot be opened or written,
  \<open>renderSync\<close> returns \<^verbatim>\<open>false\<close> and sets the task's own error message. The code
  returns \<^verbatim>\<open>false\<close>, but it puts the message in the last-error slot only: the task's
  error message stays empty and its status stays \<open>COMPLETED\<close>. The closure
  \<open>renderTask\<close> of the asynchronous path, at the same two failures, stores \<open>FAILED\<close>
  and the message in the task.
\<close>

theorem renderSync_file_failure:
  "\<not> fst (renderSync ((env_ok [1, 2, 3])\<lparr>ofstream_open := (\<lambda>path. False)\<rparr>) 1
            (Some ''out.png'') task_created) \<and>
   getErrorMessage (heap (snd (renderSync ((env_ok [1, 2, 3])\<lparr>ofstream_open := (\<lambda>path. False)\<rparr>) 1
            (Some ''out.png'') task_created)) 1) = [] \<and>
   getStatus (heap (snd (renderSync ((env_ok [1, 2, 3])\<lparr>ofstream_open := (\<lambda>path. False)\<rparr>) 1
            (Some ''out.png'') task_created)) 1) = COMPLETED \<and>
   getLastError (snd (renderSync ((env_ok [1, 2, 3])\<lparr>ofstream_open := (\<lambda>path. False)\<rparr>) 1
            (Some ''out.png'') task_created)) = Some ''Failed to open output file: out.png'' \<and>
   \<not> fst (renderSync ((env_ok [1, 2, 3])\<lparr>ofstream_write := (\<lambda>path data. False)\<rparr>) 1
            (Some ''out.png'') task_created) \<and>
   getErrorMessage (heap (snd (renderSync ((env_ok [1, 2, 3])\<lparr>ofstream_write := (\<lambda>path data. False)\<rparr>) 1
            (Some ''out.png'') task_created)) 1) = [] \<and>
   getStatus (heap (snd (renderSync ((env_ok [1, 2, 3])\<lparr>ofstream_write := (\<lambda>path data. False)\<rparr>) 1
            (Some ''out.png'') task_created)) 1) = COMPLETED \<and>
   getLastError (snd (renderSync ((env_ok [1, 2, 3])\<lparr>ofstream_write := (\<lambda>path data. False)\<rparr>) 1
            (Some ''out.png'') task_created)) = Some ''Failed to write to output file: out.png'' \<and>
   getErrorMessage (heap (snd (renderTask ((env_ok [1, 2, 3])\<lparr>ofstream_open := (\<lambda>path. False)\<rparr>) 1
            (Some ''out.png'') task_created)) 1) = ''Failed to open output file: out.png'' \<and>
   getStatus (heap (snd (renderTask ((env_ok [1, 2, 3])\<lparr>ofstream_open := (\<lambda>path. False)\<rparr>) 1
            (Some ''out.png'') task_created)) 1) = FAILED"
  by (simp add: task_created_simp getLastError_def run_defs)


section \<open>Result, error message and status\<close>

text \<open>
  Claim C5, as amended: for a task whose result and error message are both empty, as
  they are in a task just created, the state after one \<open>renderSync\<close>, or after one run
  by a worker, satisfies the invariant: a result that is not empty comes with
  \<open>COMPLETED\<close>, an error message that is not empty with \<open>FAILED\<close>, and the two are not
  both non-empty.
\<close>

theorem first_render_invariant:
  assumes "getResult (heap s task) = []" and "getErrorMessage (heap s task) = []"
  shows "result_error_invariant (heap (snd (renderSync env task outputPath s)) task) \<and>
         result_error_invariant (heap (snd (worker_execute env task s)) task)"
proof
  show "result_error_invariant (heap (snd (renderSync env task outputPath s)) task)"
  proof (cases "m_initialized s \<and> task \<noteq> nullptr")
    case False
    with assms show ?thesis
      by (simp add: renderSync_rejected result_error_invariant_def)
  next
    case True
    with assms SkiaRenderEngine_render_cases [of env task "setStatus task RUNNING s"]
    show ?thesis
      by (elim disjE exE conjE)
         (simp_all add: renderSync_def result_error_invariant_def Let_def task_update task_access
            split: option.splits)
  qed
  show "result_error_invariant (heap (snd (worker_execute env task s)) task)"
    using assms
    by (simp add: worker_execute_def executeCallback_def dec_activeThreads_def
          result_error_invariant_def Let_def task_update task_access
          split: option.splits exn.splits)
qed

theorem first_render_invariant_witness:
  "getResult (heap task_created 1) = [] \<and> getErrorMessage (heap task_created 1) = [] \<and>
   result_error_invariant (heap (snd (renderSync (env_ok [1, 2, 3]) 1 (Some ''out.png'') task_created)) 1) \<and>
   getResult (heap (snd (renderSync (env_ok [1, 2, 3]) 1 (Some ''out.png'') task_created)) 1) = [1, 2, 3] \<and>
   result_error_invariant (heap (snd (worker_execute (env_ok [1, 2, 3]) 1 task_created)) 1)"
proof -
  have r: "getResult (heap task_created 1) = []"
    by (simp add: task_created_simp Task_Task_def task_access)
  have e: "getErrorMessage (heap task_created 1) = []"
    by (simp add: task_created_simp Task_Task_def task_access)
  have b: "getResult (heap (snd (renderSync (env_ok [1, 2, 3]) 1 (Some ''out.png'') task_created)) 1)
             = [1, 2, 3]"
    by (simp add: task_created_simp run_defs)
  show ?thesis
    using r e b first_render_invariant [OF r e, of "env_ok [1, 2, 3]" "Some ''out.png''"]
    by simp
qed

text \<open>
  Claim C5 as stated fails, because no operation clears the result or the error
  message of an earlier render. The rendered task (result \<open>1, 2, 3\<close>) is rendered again
  and the engine cannot create its surface: the status is \<open>FAILED\<close>, the result is still
  there, and the error message is set too. And a task whose render failed, submitted
  with \<open>renderAsync\<close> and run by a worker, is \<open>COMPLETED\<close> with its error message left.
\<close>

theorem stale_result_and_error:
  "getStatus (heap (snd (renderSync ((env_ok [])\<lparr>MakeRaster := (\<lambda>w h. False)\<rparr>) 1 None task_rendered)) 1)
     = FAILED \<and>
   getResult (heap (snd (renderSync ((env_ok [])\<lparr>MakeRaster := (\<lambda>w h. False)\<rparr>) 1 None task_rendered)) 1)
     = [1, 2, 3] \<and>
   getErrorMessage (heap (snd (renderSync ((env_ok [])\<lparr>MakeRaster := (\<lambda>w h. False)\<rparr>) 1 None task_rendered)) 1)
     = ''Failed to create Skia surface'' \<and>
   \<not> result_error_invariant
        (heap (snd (renderSync ((env_ok [])\<lparr>MakeRaster := (\<lambda>w h. False)\<rparr>) 1 None task_rendered)) 1) \<and>
   getStatus (heap (snd (worker_execute (env_ok [])
        1 (snd (renderSync ((env_ok [])\<lparr>parseHtml := (\<lambda>html css. False)\<rparr>) 1 None task_created)))) 1)
     = COMPLETED \<and>
   getErrorMessage (heap (snd (worker_execute (env_ok [])
        1 (snd (renderSync ((env_ok [])\<lparr>parseHtml := (\<lambda>html css. False)\<rparr>) 1 None task_created)))) 1)
     = ''Failed to parse HTML/CSS''"
  by (simp add: task_rendered_simp task_created_simp result_error_invariant_def run_defs)





section \<open>Creating tasks and reading results\<close>

text \<open>
  Claim C7: a task just constructed has status \<open>PENDING\<close> and an empty result, for every
  content, stylesheet and options; \<open>createTask\<close> in an initialised library registers
  exactly such a task under its handle.
\<close>

theorem createTask_fresh_task:
  assumes "m_initialized s"
  shows "getStatus (Task_Task this html css' options) = PENDING \<and>
         getResult (Task_Task this html css' options) = [] \<and>
         (case createTask html css options s of
            (task, s') \<Rightarrow>
              task \<noteq> nullptr \<and> getTask task s' = task \<and>
              heap s' task = Task_Task task html (case css of Some c \<Rightarrow> c | None \<Rightarrow> []) options \<and>
              getStatus (heap s' task) = PENDING \<and> getResult (heap s' task) = [])"
  using assms
  by (simp add: createTask_def getTask_def Task_Task_def task_access nullptr_def Let_def)

theorem createTask_fresh_task_witness:
  "m_initialized running_state \<and>
   fst (createTask ''<p>hi</p>'' None Text2Image_GetDefaultOptions running_state) = 1 \<and>
   getStatus (heap (snd (createTask ''<p>hi</p>'' None Text2Image_GetDefaultOptions running_state)) 1)
     = PENDING \<and>
   getResult (heap (snd (createTask ''<p>hi</p>'' None Text2Image_GetDefaultOptions running_state)) 1)
     = []"
proof -
  have i: "m_initialized running_state"
    by (simp add: running_state_simp)
  have h: "fst (createTask ''<p>hi</p>'' None Text2Image_GetDefaultOptions running_state) = 1"
    by (simp add: running_state_simp createTask_def Let_def)
  show ?thesis
    using i h createTask_fresh_task [OF i, of 1 "''<p>hi</p>''" "[]" Text2Image_GetDefaultOptions None]
    by (simp add: case_prod_beta)
qed

text \<open>
  Claim C8: \<^verbatim>\<open>Text2Image_GetResult\<close> returns \<^verbatim>\<open>true\<close> exactly when the handle and the two
  out-parameters are not null, the handle is registered, and the task it names is
  \<open>COMPLETED\<close> with a result that is not empty. It then takes the next address from
  the allocator (\<open>brk\<close> moves past it, so no later allocation returns it again),
  puts a copy of the result there, stores the address and the length through the
  out-parameters, and leaves the tasks, the handle map and every other buffer as
  they were. Under the allocator's bookkeeping, which holds in every state reached
  from the constructor by operations, that address held no buffer and no task
  before. Otherwise the function returns \<^verbatim>\<open>false\<close>, stores nothing through the
  out-parameters, allocates nothing and sets the last error.
\<close>

theorem GetResult_succeeds_iff:
  "(fst (fst (Text2Image_GetResult task buffer size' s)) \<longleftrightarrow>
      task \<noteq> nullptr \<and> buffer \<noteq> nullptr \<and> size' \<noteq> nullptr \<and>
      getTask task s \<noteq> nullptr \<and>
      getStatus (heap s (getTask task s)) = COMPLETED \<and>
      getResult (heap s (getTask task s)) \<noteq> []) \<and>
   (fst (fst (Text2Image_GetResult task buffer size' s)) \<longrightarrow>
      snd (fst (Text2Image_GetResult task buffer size' s))
        = (Some (Suc (brk s)), Some (length (getResult (heap s (getTask task s))))) \<and>
      Suc (brk s) \<noteq> nullptr \<and>
      brk (snd (Text2Image_GetResult task buffer size' s)) = Suc (brk s) \<and>
      buffers (snd (Text2Image_GetResult task buffer size' s))
        = (buffers s)(Suc (brk s) \<mapsto> getResult (heap s (getTask task s))) \<and>
      buffers (snd (Text2Image_GetResult task buffer size' s)) (Suc (brk s))
        = Some (getResult (heap s (getTask task s))) \<and>
      heap (snd (Text2Image_GetResult task buffer size' s)) = heap s \<and>
      m_taskMap (snd (Text2Image_GetResult task buffer size' s)) = m_taskMap s \<and>
      (alloc_inv s \<longrightarrow>
         buffers s (Suc (brk s)) = None \<and>
         m_taskMap s (Suc (brk s)) = None \<and>
         Suc (brk s) \<notin> ran (m_taskMap s) \<and>
         alloc_inv (snd (Text2Image_GetResult task buffer size' s)))) \<and>
   (\<not> fst (fst (Text2Image_GetResult task buffer size' s)) \<longrightarrow>
      snd (fst (Text2Image_GetResult task buffer size' s)) = (None, None) \<and>
      brk (snd (Text2Image_GetResult task buffer size' s)) = brk s \<and>
      buffers (snd (Text2Image_GetResult task buffer size' s)) = buffers s \<and>
      heap (snd (Text2Image_GetResult task buffer size' s)) = heap s \<and>
      getLastError (snd (Text2Image_GetResult task buffer size' s)) \<noteq> None) \<and>
   alloc_inv (run ops (LibraryContext_LibraryContext hardware_concurrency))"
proof -
  have fresh: "alloc_inv s \<Longrightarrow>
      buffers s (Suc (brk s)) = None \<and> m_taskMap s (Suc (brk s)) = None \<and>
      Suc (brk s) \<notin> ran (m_taskMap s)"
    by (fastforce simp: alloc_inv_def ran_def)
  have keep: "alloc_inv s \<Longrightarrow> alloc_inv (snd (Text2Image_GetResult task buffer size' s))"
    using alloc_inv_perform [of s "env_ok []" "Op_GetResult task buffer size'"] by simp
  have run: "alloc_inv (run ops (LibraryContext_LibraryContext hardware_concurrency))"
    by (simp add: alloc_inv_run alloc_inv_initial)
  show ?thesis
    using fresh keep run
    by (simp add: Text2Image_GetResult_def Let_def nullptr_def setLastError_def getLastError_def)
qed

text \<open>The theorem at the rendered task, where the call succeeds and a second call
  gets another address, and at the task that was only created, where it fails with
  \<^verbatim>\<open>Task not completed\<close>.\<close>

theorem GetResult_succeeds_iff_witness:
  "fst (fst (Text2Image_GetResult 1 100 200 task_rendered)) \<and>
   alloc_inv task_rendered \<and>
   snd (fst (Text2Image_GetResult 1 100 200 task_rendered)) = (Some 2, Some 3) \<and>
   buffers task_rendered 2 = None \<and>
   buffers (snd (Text2Image_GetResult 1 100 200 task_rendered)) 2 = Some [1, 2, 3] \<and>
   brk (snd (Text2Image_GetResult 1 100 200 task_rendered)) = 2 \<and>
   getResult (heap (snd (Text2Image_GetResult 1 100 200 task_rendered)) 1) = [1, 2, 3] \<and>
   fst (snd (fst (Text2Image_GetResult 1 100 200 (snd (Text2Image_GetResult 1 100 200 task_rendered)))))
     = Some 3 \<and>
   \<not> fst (fst (Text2Image_GetResult 1 100 200 task_created)) \<and>
   snd (fst (Text2Image_GetResult 1 100 200 task_created)) = (None, None)"
proof -
  have ok: "fst (fst (Text2Image_GetResult 1 100 200 task_rendered))"
    by (simp add: Text2Image_GetResult_def task_rendered_simp getTask_def Let_def nullptr_def
          task_access)
  have inv: "alloc_inv task_rendered"
    by (simp add: alloc_inv_def task_rendered_simp)
  have no: "\<not> fst (fst (Text2Image_GetResult 1 100 200 task_created))"
    by (simp add: Text2Image_GetResult_def task_created_simp getTask_def Let_def nullptr_def
          task_access Task_Task_def)
  have t: "getTask 1 task_rendered = 1 \<and> brk task_rendered = 1 \<and>
           getResult (heap task_rendered 1) = [1, 2, 3]"
    by (simp add: task_rendered_simp getTask_def task_access)
  have again: "fst (snd (fst (Text2Image_GetResult 1 100 200
                  (snd (Text2Image_GetResult 1 100 200 task_rendered))))) = Some 3"
    by (simp add: Text2Image_GetResult_def task_rendered_simp getTask_def Let_def nullptr_def
          task_access numeral_3_eq_3)
  show ?thesis
    using ok inv no t again
      GetResult_succeeds_iff [of 1 100 200 task_rendered]
      GetResult_succeeds_iff [of 1 100 200 task_created]
    by (simp add: numeral_2_eq_2 numeral_3_eq_3)
qed

text \<open>
  Claim C9: \<^verbatim>\<open>Text2Image_CreateTask\<close> with a null options pointer does what it does with
  a pointer to the value of \<^verbatim>\<open>Text2Image_GetDefaultOptions\<close>, and the task it creates
  holds exactly these options: automatic resolution, PNG, quality 90, custom width
  and height 0, a solid background of colour \<^verbatim>\<open>0xFFFFFFFF\<close>, no background image, border
  radius 0, JavaScript off, timeout 30000.
\<close>

theorem CreateTask_null_options:
  "Text2Image_CreateTask html css None s
     = Text2Image_CreateTask html css (Some Text2Image_GetDefaultOptions) s \<and>
   (m_initialized s \<and> html \<noteq> None \<longrightarrow>
      fst (Text2Image_CreateTask html css None s) \<noteq> nullptr \<and>
      getOptions (heap (snd (Text2Image_CreateTask html css None s))
                    (getTask (fst (Text2Image_CreateTask html css None s))
                             (snd (Text2Image_CreateTask html css None s))))
        = Text2Image_GetDefaultOptions) \<and>
   Text2Image_GetDefaultOptions
     = \<lparr> resolution = TEXT2IMAGE_RESOLUTION_AUTO, format = TEXT2IMAGE_FORMAT_PNG, quality = 90,
         customWidth = 0, customHeight = 0, backgroundType = TEXT2IMAGE_BACKGROUND_SOLID,
         backgroundColor = 0xFFFFFFFF, backgroundImage = None, backgroundBlur = 0,
         borderRadius = 0, enableJavaScript = False, timeout = 30000 \<rparr>"
  by (auto simp: Text2Image_CreateTask_def createTask_def getTask_def Task_Task_def task_access
        nullptr_def Let_def Text2Image_GetDefaultOptions_def setLastError_def
        split: option.splits)

theorem CreateTask_null_options_witness:
  "m_initialized running_state \<and> Some ''<p>hi</p>'' \<noteq> None \<and>
   fst (Text2Image_CreateTask (Some ''<p>hi</p>'') None None running_state) = 1 \<and>
   getOptions (heap (snd (Text2Image_CreateTask (Some ''<p>hi</p>'') None None running_state)) 1)
     = Text2Image_GetDefaultOptions"
proof -
  have i: "m_initialized running_state"
    by (simp add: running_state_simp)
  have h: "fst (Text2Image_CreateTask (Some ''<p>hi</p>'') None None running_state) = 1 \<and>
           getTask 1 (snd (Text2Image_CreateTask (Some ''<p>hi</p>'') None None running_state)) = 1"
    by (simp add: running_state_simp Text2Image_CreateTask_def createTask_def getTask_def
          Task_Task_def task_access nullptr_def Let_def)
  have o: "getOptions (heap (snd (Text2Image_CreateTask (Some ''<p>hi</p>'') None None running_state))
                    (getTask (fst (Text2Image_CreateTask (Some ''<p>hi</p>'') None None running_state))
                             (snd (Text2Image_CreateTask (Some ''<p>hi</p>'') None None running_state))))
             = Text2Image_GetDefaultOptions"
    using i CreateTask_null_options [of "Some ''<p>hi</p>''" None running_state]
    by blast
  show ?thesis
    using i h o by simp
qed

text \<open>
  Claim C10: on a task with no callback (none was registered, or a null one was),
  \<open>executeCallback\<close> with either flag returns normally, calls nothing and changes
  nothing. A task just constructed has no callback, \<open>setCallback\<close> with a null callback
  leaves it so, and a worker that runs such a task calls no callback and ends
  without an exception.
\<close>

theorem executeCallback_without_callback:
  "(m_callback (heap s task) = nullptr \<longrightarrow>
      executeCallback env task success s = (None, s) \<and>
      fst (worker_execute env task s) = None \<and>
      callback_calls (events (snd (worker_execute env task s))) = callback_calls (events s)) \<and>
   executeCallback env task success (setCallback task nullptr userData s)
     = (None, setCallback task nullptr userData s) \<and>
   m_callback (Task_Task this html css options) = nullptr"
  by (simp add: executeCallback_def worker_execute_def dec_activeThreads_def Task_Task_def
        Let_def task_update)

text \<open>The theorem at the created task after \<^verbatim>\<open>Text2Image_RenderAsync\<close> with a null
  callback: the submission is accepted and the worker calls nothing.\<close>

theorem executeCallback_without_callback_witness:
  "fst (Text2Image_RenderAsync 1 None nullptr 8 task_created) \<and>
   m_callback (heap (snd (Text2Image_RenderAsync 1 None nullptr 8 task_created)) 1) = nullptr \<and>
   executeCallback (env_ok []) 1 True (snd (Text2Image_RenderAsync 1 None nullptr 8 task_created))
     = (None, snd (Text2Image_RenderAsync 1 None nullptr 8 task_created)) \<and>
   callback_calls (events (snd (worker_execute (env_ok []) 1
       (snd (Text2Image_RenderAsync 1 None nullptr 8 task_created))))) = []"
proof -
  have a: "fst (Text2Image_RenderAsync 1 None nullptr 8 task_created)"
    by (simp add: task_created_simp Text2Image_RenderAsync_def renderAsync_def getTask_def
          enqueue_def Let_def nullptr_def task_update)
  have n: "m_callback (heap (snd (Text2Image_RenderAsync 1 None nullptr 8 task_created)) 1) = nullptr"
    by (simp add: task_created_simp Text2Image_RenderAsync_def renderAsync_def getTask_def
          enqueue_def Let_def nullptr_def task_update)
  have e: "callback_calls (events (snd (Text2Image_RenderAsync 1 None nullptr 8 task_created))) = []"
    by (simp add: task_created_simp Text2Image_RenderAsync_def renderAsync_def getTask_def
          enqueue_def Let_def nullptr_def task_update)
  show ?thesis
    using a n e
      executeCallback_without_callback
        [of "snd (Text2Image_RenderAsync 1 None nullptr 8 task_created)" 1 "env_ok []" True]
    by simp
qed

end
